theory Spec2Isabelle
  imports Complex_Main "HOL-Library.Word" "HOL-Library.Sublist" "HOL-Library.Log_Nat"
begin

unbundle bit_operations_syntax

section \<open>Strings, bytes and the Unicode part of the standard library\<close>

text \<open>
  A Go \<open>string\<close> and a Go \<open>[]byte\<close> are both sequences of bytes; both are modelled as
  \<^typ>\<open>string\<close> (a list of 8-bit characters), and the conversions \<open>[]byte(s)\<close>,
  \<open>string(b)\<close>, \<open>BlobID(s)\<close> are the identity. \<open>MediaID\<close> is a type alias of
  \<open>BlobID\<close>, which is a \<open>string\<close>.

  \<open>strings.ToUpper\<close>, \<open>strings.ToLower\<close> and \<open>for _, r := range s\<close> read a string as
  UTF-8. On a string of ASCII bytes they work byte by byte, which is written out below.
  What the standard library does on a string with a byte \<open>\<ge> 0x80\<close> (its Unicode case
  tables and its UTF-8 decoder) is not part of this repository and is taken as a parameter.
\<close>

type_synonym BlobID = string
type_synonym MediaID = BlobID

record unicode =
  uc_upper :: "string \<Rightarrow> string"  \<comment> \<open>\<open>strings.ToUpper\<close> on a string with a non-ASCII byte\<close>
  uc_lower :: "string \<Rightarrow> string"  \<comment> \<open>\<open>strings.ToLower\<close> on a string with a non-ASCII byte\<close>
  uc_runes :: "string \<Rightarrow> string list"
    \<comment> \<open>the runes \<open>range\<close> yields on such a string, each as \<open>WriteRune\<close> encodes it\<close>
  uc_count :: "string \<Rightarrow> nat"  \<comment> \<open>\<open>utf8.RuneCountInString\<close> on such a string\<close>

definition byte :: "char \<Rightarrow> nat" where
  "byte c = of_char c"

definition isASCII :: "string \<Rightarrow> bool" where
  "isASCII s = list_all (\<lambda>c. byte c < 128) s"

definition lower_byte :: "char \<Rightarrow> char" where
  "lower_byte c = (if 65 \<le> byte c \<and> byte c \<le> 90 then char_of (byte c + 32) else c)"

definition upper_byte :: "char \<Rightarrow> char" where
  "upper_byte c = (if 97 \<le> byte c \<and> byte c \<le> 122 then char_of (byte c - 32) else c)"

definition ToLower :: "unicode \<Rightarrow> string \<Rightarrow> string" where
  "ToLower U s = (if isASCII s then map lower_byte s else uc_lower U s)"

definition ToUpper :: "unicode \<Rightarrow> string \<Rightarrow> string" where
  "ToUpper U s = (if isASCII s then map upper_byte s else uc_upper U s)"

definition runes :: "unicode \<Rightarrow> string \<Rightarrow> string list" where
  "runes U s = (if isASCII s then map (\<lambda>c. [c]) s else uc_runes U s)"

definition RuneCountInString :: "unicode \<Rightarrow> string \<Rightarrow> nat" where
  "RuneCountInString U s = (if isASCII s then length s else uc_count U s)"

text \<open>\<open>strings.ReplaceAll(s, old, "")\<close> for a one-byte \<open>old\<close>: every such byte is dropped.\<close>

definition RemoveAll :: "char \<Rightarrow> string \<Rightarrow> string" where
  "RemoveAll old s = filter (\<lambda>c. c \<noteq> old) s"


section \<open>Crockford Base32, lowercase (internal/util/encoding/crockford.go)\<close>

definition crockfordBase32Alphabet :: string where
  "crockfordBase32Alphabet = ''0123456789ABCDEFGHJKMNPQRSTVWXYZ''"

text \<open>
  \<open>accum\<close> is a Go \<open>int\<close>, 64 bits wide: \<open><<\<close> drops the bits shifted out, \<open>>>\<close> is the
  arithmetic shift. \<open>bits\<close> is a Go \<open>int\<close> too; it is only decreased under the guard
  \<open>bits >= 5\<close> and stays below 13, so it is a \<^typ>\<open>nat\<close> here.
\<close>

text \<open>The inner loop \<open>for bits >= 5 { bits -= 5; result.WriteByte(alphabet[(accum>>bits)&0x1F]) }\<close>.\<close>

function enc_emit :: "64 word \<Rightarrow> nat \<Rightarrow> string \<Rightarrow> nat \<times> string" where
  "enc_emit accum bits result =
     (if bits \<ge> 5
      then enc_emit accum (bits - 5)
             (result @ [crockfordBase32Alphabet ! unat (signed_drop_bit (bits - 5) accum AND 0x1F)])
      else (bits, result))"
  by pat_completeness auto
termination
  by (relation "measure (\<lambda>(accum, bits, result). bits)") auto

declare enc_emit.simps [simp del]

text \<open>The outer loop \<open>for _, b := range input\<close>.\<close>

fun enc_loop :: "string \<Rightarrow> 64 word \<Rightarrow> nat \<Rightarrow> string \<Rightarrow> 64 word \<times> nat \<times> string" where
  "enc_loop [] accum bits result = (accum, bits, result)"
| "enc_loop (b # input) accum bits result =
     (let accum' = push_bit 8 accum OR word_of_nat (byte b);
          (bits', result') = enc_emit accum' (bits + 8) result
      in enc_loop input accum' bits' result')"

definition EncodeCrockfordB32LC :: "unicode \<Rightarrow> string \<Rightarrow> string" where
  "EncodeCrockfordB32LC U input =
     (let (accum, bits, result) = enc_loop input 0 0 [];
          result' = (if bits > 0
                     then result @ [crockfordBase32Alphabet ! unat (push_bit (5 - bits) accum AND 0x1F)]
                     else result)
      in ToLower U result')"

text \<open>
  The body of the \<open>switch\<close> in \<open>NormalizeCrockfordB32LC\<close>, on one rune given by its UTF-8
  bytes: \<open>O\<close> becomes \<open>0\<close>, \<open>I\<close> and \<open>L\<close> become \<open>1\<close>, anything else is written back.
\<close>

definition normalize_rune :: "string \<Rightarrow> string" where
  "normalize_rune r =
     (if r = ''O'' then ''0''
      else if r = ''I'' then ''1''
      else if r = ''L'' then ''1''
      else r)"

definition NormalizeCrockfordB32LC :: "unicode \<Rightarrow> string \<Rightarrow> string" where
  "NormalizeCrockfordB32LC U input =
     (let input1 = RemoveAll (CHR '' '') input;
          input2 = ToUpper U input1;
          result = concat (map normalize_rune (runes U input2))
      in ToLower U result)"


section \<open>Errors\<close>

text \<open>
  The sentinel errors of the repository (\<open>errors.New\<close>), two kinds of failure of the
  operating system, the failure of the JSON codec, and \<open>fmt.Errorf("...: %w", err)\<close>,
  which wraps an error in a message. \<open>Is\<close> is \<open>errors.Is\<close>: it walks the chain of
  wrapped errors.
\<close>

datatype error =
    ErrMediaTooLarge
  | ErrImageTypeNotSupported
  | ErrImageTypeMismatch
  | ErrImageTooLarge
  | ErrUnauthorized
  | ErrNotExist  \<comment> \<open>the operating system reports that the file does not exist\<close>
  | ErrIO  \<comment> \<open>any other failure of a system call\<close>
  | ErrJSON  \<comment> \<open>\<open>json.Marshal\<close> or \<open>json.Unmarshal\<close> failed\<close>
  | Wrap string error

fun Is :: "error \<Rightarrow> error \<Rightarrow> bool" where
  "Is (Wrap msg e) target = (Wrap msg e = target \<or> Is e target)"
| "Is e target = (e = target)"


section \<open>Domain types (internal/domain)\<close>

record Blob =
  blob_ID :: BlobID
  Body :: string

definition NewBlob :: "BlobID \<Rightarrow> string \<Rightarrow> Blob" where
  "NewBlob id' body = \<lparr>blob_ID = id', Body = body\<rparr>"

record MediaMeta =
  Filename :: string
  ID :: MediaID
  Hash :: string
  Size :: int
  Owner :: string
  MIMEType :: string

text \<open>
  The parts of the standard library the domain and the services call: the Unicode tables,
  SHA-256 (\<open>crypto/sha256\<close>), the JSON codec on \<open>MediaMeta\<close> (\<open>encoding/json\<close>, \<open>None\<close>
  when it returns an error) and \<open>filepath.Join\<close>. They are parameters of the model.
\<close>

record stdlib =
  uc :: unicode
  sha256 :: "string \<Rightarrow> string"
  json_Marshal :: "MediaMeta \<Rightarrow> string option"
  json_Unmarshal :: "string \<Rightarrow> MediaMeta option"
  filepath_Join :: "string list \<Rightarrow> string"

text \<open>
  A \<open>hash.Hash\<close> is modelled by the bytes written to it so far: \<open>Write\<close> appends,
  \<open>Reset\<close> forgets, and \<open>Sum(nil)\<close> is the digest of what was written.
\<close>

definition hasher_New :: string where
  "hasher_New = []"

definition hasher_Write :: "string \<Rightarrow> string \<Rightarrow> string" where
  "hasher_Write hasher p = hasher @ p"

definition hasher_Reset :: "string \<Rightarrow> string" where
  "hasher_Reset hasher = []"

definition hasher_Sum :: "stdlib \<Rightarrow> string \<Rightarrow> string" where
  "hasher_Sum L hasher = sha256 L hasher"

definition NewMediaMetaFromBlob :: "stdlib \<Rightarrow> Blob \<Rightarrow> error + MediaMeta" where
  "NewMediaMetaFromBlob L blob =
     (case json_Unmarshal L (Body blob) of
        None \<Rightarrow> Inl (Wrap ''unmarshal metadata'' ErrJSON)
      | Some imgMeta \<Rightarrow> Inr imgMeta)"

definition update :: "stdlib \<Rightarrow> MediaMeta \<Rightarrow> string \<Rightarrow> MediaMeta" where
  "update L imgMeta0 data' =
     (let hasher = hasher_Write hasher_New data';
          imgMeta1 = imgMeta0\<lparr>Hash := EncodeCrockfordB32LC (uc L) (hasher_Sum L hasher)\<rparr>;
          imgMeta2 = imgMeta1\<lparr>Size := int (length data')\<rparr>;
          hasher = hasher_Reset hasher;
          hasher = hasher_Write hasher (Hash imgMeta2);
          hasher = hasher_Write hasher (Filename imgMeta2);
          hasher = hasher_Write hasher (MIMEType imgMeta2);
          hasher = hasher_Write hasher (Owner imgMeta2)
      in imgMeta2\<lparr>ID := EncodeCrockfordB32LC (uc L) (hasher_Sum L hasher)\<rparr>)"

definition MediaMeta_AsBlob :: "stdlib \<Rightarrow> MediaMeta \<Rightarrow> error + Blob" where
  "MediaMeta_AsBlob L imgMeta =
     (case json_Marshal L imgMeta of
        None \<Rightarrow> Inl (Wrap ''marshal metadata'' ErrJSON)
      | Some data' \<Rightarrow> Inr (NewBlob (ID imgMeta) data'))"

text \<open>
  A Go slice can be \<open>nil\<close>, which \<open>CheckUploadConstraints\<close> tests for: the content of a
  \<open>Media\<close> is \<open>None\<close> for the \<open>nil\<close> slice and \<open>Some b\<close> otherwise. \<open>bytes_of\<close> reads it
  (\<open>nil\<close> has no bytes).
\<close>

definition bytes_of :: "string option \<Rightarrow> string" where
  "bytes_of sl = (case sl of None \<Rightarrow> [] | Some b \<Rightarrow> b)"

record Media =
  data :: "string option"
  meta :: MediaMeta

definition NewMedia :: "stdlib \<Rightarrow> string option \<Rightarrow> MediaMeta \<Rightarrow> Media" where
  "NewMedia L data' meta' = \<lparr>data = data', meta = update L meta' (bytes_of data')\<rparr>"

definition Media_ID :: "Media \<Rightarrow> MediaID" where
  "Media_ID m = ID (meta m)"

definition Media_Hash :: "Media \<Rightarrow> string" where
  "Media_Hash m = Hash (meta m)"

definition Media_Bytes :: "Media \<Rightarrow> string option" where
  "Media_Bytes m = data m"

definition Media_Size :: "Media \<Rightarrow> int" where
  "Media_Size m = int (length (bytes_of (data m)))"

definition Media_AsBlob :: "Media \<Rightarrow> Blob" where
  "Media_AsBlob m = NewBlob (Hash (meta m)) (bytes_of (data m))"


section \<open>The request context (internal/infra/context/username.go)\<close>

text \<open>
  Of the context only the value under the username key matters: \<open>None\<close> when
  \<open>WithUsername\<close> was never applied, \<open>Some u\<close> after \<open>WithUsername(ctx, u)\<close>.
\<close>

type_synonym Context = "string option"

definition UsernameFromContext :: "Context \<Rightarrow> string \<times> bool" where
  "UsernameFromContext ctx = (case ctx of None \<Rightarrow> ([], False) | Some u \<Rightarrow> (u, True))"

definition WithUsername :: "Context \<Rightarrow> string \<Rightarrow> Context" where
  "WithUsername ctx username = Some username"


section \<open>Blob repositories (internal/repo/blob)\<close>

text \<open>
  The services hold four repositories. Each is a set of files, one per blob id, read here
  as a map from the id to the content. The data and the backref repository share the
  subdirectory \<open>data\<close> but differ in the extension, so they hold different files.
  A system call can fail: \<open>fails s r op\<close> says that the operating system refuses this
  operation on repository \<open>r\<close> (as the \<open>lockErr\<close>, \<open>storeErr\<close>, \<open>fetchErr\<close> and
  \<open>deleteErr\<close> of the repository used by the tests do). \<open>trace\<close> records the locks taken
  and the writes made, in order.
\<close>

datatype repo = DataRepo | MetaRepo | BackrefRepo | CacheRepo

datatype repo_op = OpLock | OpStore | OpFetch | OpDelete

datatype event =
    EvLock repo BlobID bool
  | EvStore repo BlobID
  | EvDelete repo BlobID

record state =
  blobs :: "repo \<Rightarrow> BlobID \<rightharpoonup> string"
  fails :: "repo \<Rightarrow> repo_op \<Rightarrow> bool"
  trace :: "event list"

text \<open>\<open>Lock\<close>: \<open>flock\<close> on the sidecar file; the returned \<open>release\<close> is deferred by every caller.\<close>

definition repo_Lock :: "repo \<Rightarrow> BlobID \<Rightarrow> bool \<Rightarrow> state \<Rightarrow> (error + unit) \<times> state" where
  "repo_Lock r id' exclusive s =
     (if fails s r OpLock then (Inl (Wrap ''flock'' ErrIO), s)
      else (Inr (), s\<lparr>trace := trace s @ [EvLock r id' exclusive]\<rparr>))"

text \<open>\<open>Exists\<close>: \<open>os.Stat\<close> succeeds.\<close>

definition repo_Exists :: "repo \<Rightarrow> BlobID \<Rightarrow> state \<Rightarrow> bool" where
  "repo_Exists r id' s = (blobs s r id' \<noteq> None)"

text \<open>\<open>Store\<close>: create or open the file, truncate it to the size of the body, write the body.\<close>

definition repo_Store :: "repo \<Rightarrow> Blob \<Rightarrow> state \<Rightarrow> (error + unit) \<times> state" where
  "repo_Store r blob s =
     (if fails s r OpStore then (Inl (Wrap ''store blob'' ErrIO), s)
      else (Inr (), s\<lparr>blobs := (blobs s)(r := (blobs s r)(blob_ID blob \<mapsto> Body blob)),
                       trace := trace s @ [EvStore r (blob_ID blob)]\<rparr>))"

text \<open>\<open>Fetch\<close>: \<open>os.OpenFile\<close> fails on a file that does not exist.\<close>

definition repo_Fetch :: "repo \<Rightarrow> BlobID \<Rightarrow> state \<Rightarrow> error + Blob" where
  "repo_Fetch r id' s =
     (if fails s r OpFetch then Inl (Wrap ''fetch blob'' ErrIO)
      else case blobs s r id' of
             None \<Rightarrow> Inl (Wrap ''fetch blob'' ErrNotExist)
           | Some body \<Rightarrow> Inr \<lparr>blob_ID = id', Body = body\<rparr>)"

text \<open>\<open>Delete\<close>: \<open>os.Remove\<close> fails on a file that does not exist.\<close>

definition repo_Delete :: "repo \<Rightarrow> BlobID \<Rightarrow> state \<Rightarrow> (error + unit) \<times> state" where
  "repo_Delete r id' s =
     (if fails s r OpDelete then (Inl (Wrap ''delete blob'' ErrIO), s)
      else case blobs s r id' of
             None \<Rightarrow> (Inl (Wrap ''delete blob'' ErrNotExist), s)
           | Some body \<Rightarrow>
               (Inr (), s\<lparr>blobs := (blobs s)(r := (blobs s r)(id' := None)),
                          trace := trace s @ [EvDelete r id']\<rparr>))"


text \<open>No system call is refused.\<close>

definition no_faults :: "state \<Rightarrow> bool" where
  "no_faults s = (\<forall>r op. \<not> fails s r op)"

text \<open>\<open>errors.Is(err, target)\<close> on the error of a result, false when there is none.\<close>

definition failed_with :: "error + 'a \<Rightarrow> error \<Rightarrow> bool" where
  "failed_with res target = (case res of Inl err \<Rightarrow> Is err target | Inr v \<Rightarrow> False)"


section \<open>The media service (internal/svc/mediasvc)\<close>

record MediaConfig =
  MaxSize :: int

text \<open>
  \<open>bytes.Split(s, []byte("\n"))\<close> and \<open>bytes.Join(ss, []byte("\n"))\<close>, for the one-byte
  separator the service uses: a string with \<open>n\<close> separators splits into \<open>n + 1\<close> parts.
\<close>

fun bytes_Split :: "string \<Rightarrow> char \<Rightarrow> string list" where
  "bytes_Split [] sep = [[]]"
| "bytes_Split (c # cs) sep =
     (if c = sep then [] # bytes_Split cs sep
      else (case bytes_Split cs sep of
              [] \<Rightarrow> [[c]]
            | part # parts \<Rightarrow> (c # part) # parts))"

fun bytes_Join :: "string list \<Rightarrow> char \<Rightarrow> string" where
  "bytes_Join [] sep = []"
| "bytes_Join [part] sep = part"
| "bytes_Join (part # parts) sep = part @ sep # bytes_Join parts sep"

definition newline :: char where
  "newline = CHR 0x0A"

definition fetchMeta :: "stdlib \<Rightarrow> MediaID \<Rightarrow> state \<Rightarrow> error + MediaMeta" where
  "fetchMeta L mediaID s =
     (case repo_Fetch MetaRepo mediaID s of
        Inl err \<Rightarrow> Inl (Wrap ''fetch meta'' err)
      | Inr metaBlob \<Rightarrow>
          (case NewMediaMetaFromBlob L metaBlob of
             Inl err \<Rightarrow> Inl (Wrap ''convert meta blob'' err)
           | Inr mediaMeta \<Rightarrow> Inr mediaMeta))"

definition fetchBackrefs :: "BlobID \<Rightarrow> state \<Rightarrow> error + BlobID list" where
  "fetchBackrefs blobID s =
     (if \<not> repo_Exists BackrefRepo blobID s then Inr []
      else case repo_Fetch BackrefRepo blobID s of
             Inl err \<Rightarrow> Inl (Wrap ''fetch backref'' err)
           | Inr backrefBlob \<Rightarrow> Inr (bytes_Split (Body backrefBlob) newline))"

definition storeBackrefs :: "BlobID \<Rightarrow> BlobID list \<Rightarrow> state \<Rightarrow> (error + unit) \<times> state" where
  "storeBackrefs blobID backrefs s =
     (let backrefBlob = NewBlob blobID (bytes_Join backrefs newline)
      in case repo_Store BackrefRepo backrefBlob s of
           (Inl err, s') \<Rightarrow> (Inl (Wrap ''store backref'' err), s')
         | (Inr u, s') \<Rightarrow> (Inr (), s'))"

definition addBackrefs :: "BlobID \<Rightarrow> BlobID list \<Rightarrow> state \<Rightarrow> (error + unit) \<times> state" where
  "addBackrefs dataID metaIDs s =
     (case fetchBackrefs dataID s of
        Inl err \<Rightarrow> (Inl (Wrap ''fetch backrefs'' err), s)
      | Inr backrefs \<Rightarrow>
          (case storeBackrefs dataID (backrefs @ metaIDs) s of
             (Inl err, s') \<Rightarrow> (Inl (Wrap ''store backrefs'' err), s')
           | (Inr u, s') \<Rightarrow> (Inr (), s')))"

text \<open>\<open>pruneMedia\<close> returns \<open>(pruned, err)\<close>; \<open>pruned\<close> is \<open>false\<close> whenever \<open>err\<close> is set.\<close>

definition pruneMedia :: "MediaMeta \<Rightarrow> state \<Rightarrow> (error + bool) \<times> state" where
  "pruneMedia mediaMeta s =
     (case fetchBackrefs (Hash mediaMeta) s of
        Inl err \<Rightarrow> (Inl (Wrap ''fetch backrefs'' err), s)
      | Inr backrefs0 \<Rightarrow>
          (let backrefs = filter (\<lambda>v. \<not> (v = ID mediaMeta)) backrefs0;
               dataID = Hash mediaMeta
           in if length backrefs = 0
              then (case repo_Delete DataRepo dataID s of
                      (Inl err, s1) \<Rightarrow> (Inl (Wrap ''delete data'' err), s1)
                    | (Inr u, s1) \<Rightarrow>
                        (case repo_Delete BackrefRepo dataID s1 of
                           (Inl err, s2) \<Rightarrow> (Inl (Wrap ''delete backrefs'' err), s2)
                         | (Inr u, s2) \<Rightarrow> (Inr True, s2)))
              else (case storeBackrefs (Hash mediaMeta) backrefs s of
                      (Inl err, s1) \<Rightarrow> (Inl (Wrap ''store backrefs'' err), s1)
                    | (Inr u, s1) \<Rightarrow> (Inr False, s1))))"

text \<open>
  \<open>Store\<close>. Both locks are released by deferred calls on every path after they are taken;
  releasing leaves no trace here.
\<close>

definition Store :: "stdlib \<Rightarrow> MediaConfig \<Rightarrow> Media \<Rightarrow> state \<Rightarrow> (error + unit) \<times> state" where
  "Store L cfg media s =
     (if Media_Size media > MaxSize cfg
      then (Inl (Wrap ''exceeds'' ErrMediaTooLarge), s)
      else case MediaMeta_AsBlob L (meta media) of
        Inl err \<Rightarrow> (Inl (Wrap ''convert meta to blob'' err), s)
      | Inr metaBlob \<Rightarrow>
     (case repo_Lock MetaRepo (blob_ID metaBlob) True s of
        (Inl err, s1) \<Rightarrow> (Inl (Wrap ''lock meta'' err), s1)
      | (Inr u, s1) \<Rightarrow>
     (let dataBlob = Media_AsBlob media
      in case repo_Lock DataRepo (blob_ID dataBlob) True s1 of
        (Inl err, s2) \<Rightarrow> (Inl (Wrap ''lock data'' err), s2)
      | (Inr u, s2) \<Rightarrow>
     (case (if \<not> repo_Exists DataRepo (blob_ID dataBlob) s2
            then repo_Store DataRepo dataBlob s2
            else (Inr (), s2)) of
        (Inl err, s3) \<Rightarrow> (Inl (Wrap ''store data'' err), s3)
      | (Inr u, s3) \<Rightarrow>
     (if \<not> repo_Exists MetaRepo (blob_ID metaBlob) s3
      then (case repo_Store MetaRepo metaBlob s3 of
              (Inl err, s4) \<Rightarrow> (Inl (Wrap ''store meta'' err), s4)
            | (Inr u, s4) \<Rightarrow>
                (case addBackrefs (blob_ID dataBlob) [blob_ID metaBlob] s4 of
                   (Inl err, s5) \<Rightarrow> (Inl (Wrap ''add backrefs'' err), s5)
                 | (Inr u, s5) \<Rightarrow> (Inr (), s5)))
      else (Inr (), s3))))))"

text \<open>\<open>Delete\<close> returns \<open>(prune, dataID, err)\<close>, all three on every path.\<close>

definition Delete ::
  "stdlib \<Rightarrow> Context \<Rightarrow> MediaID \<Rightarrow> state \<Rightarrow> (bool \<times> BlobID \<times> error option) \<times> state" where
  "Delete L ctx mediaID s =
     (case repo_Lock MetaRepo mediaID False s of
        (Inl err, s1) \<Rightarrow> ((False, [], Some (Wrap ''lock meta'' err)), s1)
      | (Inr u, s1) \<Rightarrow>
     (case fetchMeta L mediaID s1 of
        Inl err \<Rightarrow> ((False, [], Some (Wrap ''fetch meta'' err)), s1)
      | Inr mediaMeta \<Rightarrow>
     (let dataID = Hash mediaMeta;
          (username, ok) = UsernameFromContext ctx
      in if \<not> ok \<or> username \<noteq> Owner mediaMeta
         then ((False, [], Some (Wrap ''is not owner'' ErrUnauthorized)), s1)
         else
     (case repo_Lock DataRepo (Hash mediaMeta) True s1 of
        (Inl err, s2) \<Rightarrow> ((False, dataID, Some (Wrap ''lock data'' err)), s2)
      | (Inr u, s2) \<Rightarrow>
     (case pruneMedia mediaMeta s2 of
        (Inl err, s3) \<Rightarrow> ((False, dataID, Some (Wrap ''prune media'' err)), s3)
      | (Inr pruned, s3) \<Rightarrow>
     (case repo_Delete MetaRepo mediaID s3 of
        (Inl err, s4) \<Rightarrow> ((pruned, dataID, Some (Wrap ''delete meta'' err)), s4)
      | (Inr u, s4) \<Rightarrow> ((pruned, dataID, None), s4)))))))"

definition Fetch :: "stdlib \<Rightarrow> Context \<Rightarrow> MediaID \<Rightarrow> state \<Rightarrow> (error + Media) \<times> state" where
  "Fetch L ctx mediaID s =
     (case repo_Lock MetaRepo mediaID False s of
        (Inl err, s1) \<Rightarrow> (Inl (Wrap ''lock meta'' err), s1)
      | (Inr u, s1) \<Rightarrow>
     (case repo_Fetch MetaRepo mediaID s1 of
        Inl err \<Rightarrow> (Inl (Wrap ''fetch meta'' err), s1)
      | Inr metaBlob \<Rightarrow>
     (case NewMediaMetaFromBlob L metaBlob of
        Inl err \<Rightarrow> (Inl (Wrap ''convert meta blob'' err), s1)
      | Inr mediaMeta \<Rightarrow>
     (let (username, ok) = UsernameFromContext ctx
      in if \<not> ok \<or> username \<noteq> Owner mediaMeta
         then (Inl (Wrap ''is not owner'' ErrUnauthorized), s1)
         else
     (case repo_Lock DataRepo (Hash mediaMeta) False s1 of
        (Inl err, s2) \<Rightarrow> (Inl (Wrap ''lock data'' err), s2)
      | (Inr u, s2) \<Rightarrow>
     (case repo_Fetch DataRepo (Hash mediaMeta) s2 of
        Inl err \<Rightarrow> (Inl (Wrap ''fetch data'' err), s2)
      | Inr dataBlob \<Rightarrow> (Inr (NewMedia L (Some (Body dataBlob)) mediaMeta), s2)))))))"


text \<open>The backref list of a content hash, as \<open>fetchBackrefs\<close> reads it.\<close>

definition Backref :: "state \<Rightarrow> BlobID \<Rightarrow> BlobID list" where
  "Backref s h = (case blobs s BackrefRepo h of None \<Rightarrow> [] | Some b \<Rightarrow> bytes_Split b newline)"

text \<open>
  The state a successful \<open>Store\<close> leaves: both locks taken, the data blob written when it
  was absent, the meta blob written and the backref list extended when the meta blob was
  absent.
\<close>

definition stored :: "Media \<Rightarrow> string \<Rightarrow> state \<Rightarrow> state" where
  "stored m metaBody s =
     (let h = Hash (meta m); i = ID (meta m);
          s2 = s\<lparr>trace := trace s @ [EvLock MetaRepo i True, EvLock DataRepo h True]\<rparr>;
          s3 = (if blobs s DataRepo h = None
                then s2\<lparr>blobs := (blobs s2)(DataRepo := (blobs s2 DataRepo)(h \<mapsto> bytes_of (data m))),
                        trace := trace s2 @ [EvStore DataRepo h]\<rparr>
                else s2)
      in if blobs s MetaRepo i = None
         then s3\<lparr>blobs := (blobs s3)
                    (MetaRepo := (blobs s3 MetaRepo)(i \<mapsto> metaBody),
                     BackrefRepo := (blobs s3 BackrefRepo)(h \<mapsto> bytes_Join (Backref s h @ [i]) newline)),
                 trace := trace s3 @ [EvStore MetaRepo i, EvStore BackrefRepo h]\<rparr>
         else s3)"


section \<open>The image service (internal/svc/imagesvc)\<close>

definition MIMETypeJPEG :: string where "MIMETypeJPEG = ''image/jpeg''"
definition MIMETypePNG :: string where "MIMETypePNG = ''image/png''"
definition MIMETypeTIFF :: string where "MIMETypeTIFF = ''image/tiff''"

definition imageExtTypes :: "string \<rightharpoonup> string" where
  "imageExtTypes = map_of
     [(''.jpg'', MIMETypeJPEG),
      (''.jpeg'', MIMETypeJPEG),
      (''.png'', MIMETypePNG),
      (''.tiff'', MIMETypeTIFF),
      (''.tif'', MIMETypeTIFF)]"

definition imageExtHeaders :: "string \<rightharpoonup> string list" where
  "imageExtHeaders = map_of
     [(MIMETypeJPEG, [[CHR 0xFF, CHR 0xD8]]),
      (MIMETypePNG, [[CHR 0x89, CHR 0x50, CHR 0x4E, CHR 0x47, CHR 0x0D, CHR 0x0A, CHR 0x1A, CHR 0x0A]]),
      (MIMETypeTIFF, [[CHR 0x49, CHR 0x49, CHR 0x2A, CHR 0x00], [CHR 0x4D, CHR 0x4D, CHR 0x00, CHR 0x2A]])]"

text \<open>
  \<open>filepath.Ext\<close> (standard library): scanning from the end up to the last path separator,
  the suffix that starts at the first dot met; empty when there is none.
\<close>

fun ext_scan :: "string \<Rightarrow> string \<Rightarrow> string" where
  "ext_scan [] seen = []"
| "ext_scan (c # front) seen =
     (if c = CHR ''/'' then []
      else if c = CHR ''.'' then c # seen
      else ext_scan front (c # seen))"

definition filepath_Ext :: "string \<Rightarrow> string" where
  "filepath_Ext path = ext_scan (rev path) []"

text \<open>\<open>bytes.HasPrefix\<close> over the headers of a type; a type without headers has a \<open>nil\<close> list.\<close>

definition has_header :: "string \<Rightarrow> string \<Rightarrow> bool" where
  "has_header imageType img =
     list_ex (\<lambda>header. prefix header img)
       (case imageExtHeaders imageType of None \<Rightarrow> [] | Some headers \<Rightarrow> headers)"

text \<open>
  \<open>CheckUploadConstraints\<close> returns \<open>(mimeType, ok, err)\<close>: \<open>Inl err\<close> stands for
  \<open>("", false, err)\<close> and \<open>Inr (t, ok)\<close> for \<open>(t, ok, nil)\<close>. \<open>imageSvc.MaxSize()\<close> is the
  \<open>MaxSize\<close> of the media service.
\<close>

definition CheckUploadConstraints ::
  "stdlib \<Rightarrow> MediaConfig \<Rightarrow> string \<Rightarrow> int \<Rightarrow> string option \<Rightarrow> error + (string \<times> bool)" where
  "CheckUploadConstraints L cfg filename size' img =
     (if size' > MaxSize cfg then Inl ErrImageTooLarge
      else let filenameExt = ToLower (uc L) (filepath_Ext filename)
      in case imageExtTypes filenameExt of
           None \<Rightarrow> Inl (Wrap filenameExt ErrImageTypeNotSupported)
         | Some imageType \<Rightarrow>
             (case img of
                None \<Rightarrow> Inr ([], True)
              | Some body \<Rightarrow>
                  if has_header imageType body then Inr (imageType, True)
                  else Inl (Wrap filenameExt ErrImageTypeMismatch)))"

definition image_Store :: "stdlib \<Rightarrow> MediaConfig \<Rightarrow> Media \<Rightarrow> state \<Rightarrow> (error + unit) \<times> state" where
  "image_Store L cfg img s =
     (case CheckUploadConstraints L cfg (Filename (meta img))
             (int (length (bytes_of (Media_Bytes img)))) (Media_Bytes img) of
        Inl err \<Rightarrow> (Inl (Wrap ''check upload constraints'' err), s)
      | Inr r \<Rightarrow> Store L cfg img s)"


section \<open>Paths of the filesystem repository (internal/repo/blob/filesystem_blob_repository.go)\<close>

definition dirPrefixLength :: nat where "dirPrefixLength = 2"
definition dirPrefixDepth :: nat where "dirPrefixDepth = 3"
definition idMinLength :: nat where "idMinLength = dirPrefixDepth * dirPrefixLength"

record FileSystemRepository =
  Basedir :: string
  subdir :: string
  ext :: string

text \<open>\<open>fmt.Sprintf("%*s", width, s)\<close>: spaces on the left up to \<open>width\<close> runes.\<close>

definition Sprintf_pad :: "unicode \<Rightarrow> nat \<Rightarrow> string \<Rightarrow> string" where
  "Sprintf_pad U width s = replicate (width - RuneCountInString U s) (CHR '' '') @ s"

text \<open>\<open>strings.ReplaceAll(s, old, new)\<close> for one-byte \<open>old\<close> and \<open>new\<close>.\<close>

definition ReplaceAll_byte :: "string \<Rightarrow> char \<Rightarrow> char \<Rightarrow> string" where
  "ReplaceAll_byte s old new = map (\<lambda>c. if c = old then new else c) s"

text \<open>The first two statements of \<open>getBasename\<close>: the padded name of the blob.\<close>

definition basename_of :: "unicode \<Rightarrow> BlobID \<Rightarrow> string" where
  "basename_of U id' =
     (let basename = RemoveAll (CHR ''/'') id'
      in ReplaceAll_byte (Sprintf_pad U idMinLength basename) (CHR '' '') (CHR ''0''))"

text \<open>
  The loop of \<open>getBasename\<close>:
  \<open>for i := 0; i < dirPrefixLength*dirPrefixDepth && i < len(basename)-dirPrefixLength; i += dirPrefixLength\<close>.
  \<open>len(basename)-dirPrefixLength\<close> is a signed \<open>int\<close>.
\<close>

function prefixes_loop :: "nat \<Rightarrow> string \<Rightarrow> string list \<Rightarrow> string list" where
  "prefixes_loop i basename prefixes' =
     (if i < dirPrefixLength * dirPrefixDepth \<and> int i < int (length basename) - int dirPrefixLength
      then prefixes_loop (i + dirPrefixLength) basename
             (prefixes' @ [take dirPrefixLength (drop i basename)])
      else prefixes')"
  by pat_completeness auto
termination
  by (relation "measure (\<lambda>(i, basename, prefixes'). dirPrefixLength * dirPrefixDepth - i)")
     (auto simp add: dirPrefixLength_def dirPrefixDepth_def)

declare prefixes_loop.simps [simp del]

definition dir_prefixes :: "string \<Rightarrow> string list" where
  "dir_prefixes basename = prefixes_loop 0 basename []"

definition getBasename :: "stdlib \<Rightarrow> FileSystemRepository \<Rightarrow> BlobID \<Rightarrow> string" where
  "getBasename L fsRepo id' =
     (let basename = basename_of (uc L) id';
          prefixes' = dir_prefixes basename
      in filepath_Join L ([Basedir fsRepo, subdir fsRepo] @ prefixes' @ [basename]))"

definition GetFilename :: "stdlib \<Rightarrow> FileSystemRepository \<Rightarrow> BlobID \<Rightarrow> string" where
  "GetFilename L fsRepo id' = getBasename L fsRepo id' @ ''.'' @ ext fsRepo"


section \<open>Sample data\<close>

text \<open>
  A library instance to run the model on concrete inputs. Its Unicode part leaves
  non-ASCII strings alone. Its SHA-256 and its JSON codec are the real ones, restricted to
  the inputs used below: the upload of \<open>hello.txt\<close> with body \<open>hello\<close> by \<open>alice\<close>
  and by \<open>bob\<close>, and the uploads of \<open>doc.png\<close> by \<open>alice\<close> with no body and with the
  two bytes \<open>FF D8\<close>. The identifiers are the ones the program derives for them.
\<close>

definition sample_unicode :: unicode where
  "sample_unicode =
     \<lparr>uc_upper = (\<lambda>s. s), uc_lower = (\<lambda>s. s), uc_runes = (\<lambda>s. [s]), uc_count = length\<rparr>"

definition hello_hash :: string where
  "hello_hash = ''5ks4vejzp2hgw9q87cncbef2krdhc7jw3ykm4qkk0gsp54wbk0j0''"

definition alice_id :: string where
  "alice_id = ''xqp02bxtg66gxxp01qe2hvx4pd77pkhmr9cgc5scp4bepcvn53gg''"

definition bob_id :: string where
  "bob_id = ''g1vq2mz3y76mdnatj4dfw79kcxrqv3cvx1kzvv4dvtwcpz2x6t3g''"

definition empty_hash :: string where
  "empty_hash = ''werc8gmrzge196qvyk49jvxs4gktwgf4cjds6k54jpchpy2jq1ag''"

definition empty_id :: string where
  "empty_id = ''kzz9s37vfcdmekvkcq4r32jyan6wqh7v6wgtywey5qa26q0c67tg''"

definition jpeg_magic :: string where
  "jpeg_magic = [CHR 0xFF, CHR 0xD8]"

definition jpeg_hash :: string where
  "jpeg_hash = ''e5b3np00c507xqmwdwrpgdh89f9q22jj1hd7jatyv8ebe0v910ag''"

definition hello_meta :: "string \<Rightarrow> MediaID \<Rightarrow> MediaMeta" where
  "hello_meta owner id' =
     \<lparr>Filename = ''hello.txt'', ID = id', Hash = hello_hash, Size = 5,
      Owner = owner, MIMEType = ''text/plain''\<rparr>"

definition alice_meta :: MediaMeta where
  "alice_meta = hello_meta ''alice'' alice_id"

definition bob_meta :: MediaMeta where
  "bob_meta = hello_meta ''bob'' bob_id"

definition empty_meta :: MediaMeta where
  "empty_meta =
     \<lparr>Filename = ''doc.png'', ID = empty_id, Hash = empty_hash, Size = 0,
      Owner = ''alice'', MIMEType = ''image/png''\<rparr>"

definition alice_json :: string where
  \<open>alice_json = ''{"filename":"hello.txt","id":"xqp02bxtg66gxxp01qe2hvx4pd77pkhmr9cgc5scp4bepcvn53gg","hash":"5ks4vejzp2hgw9q87cncbef2krdhc7jw3ykm4qkk0gsp54wbk0j0","size":5,"owner":"alice","mimeType":"text/plain"}''\<close>

definition bob_json :: string where
  \<open>bob_json = ''{"filename":"hello.txt","id":"g1vq2mz3y76mdnatj4dfw79kcxrqv3cvx1kzvv4dvtwcpz2x6t3g","hash":"5ks4vejzp2hgw9q87cncbef2krdhc7jw3ykm4qkk0gsp54wbk0j0","size":5,"owner":"bob","mimeType":"text/plain"}''\<close>

definition empty_json :: string where
  \<open>empty_json = ''{"filename":"doc.png","id":"kzz9s37vfcdmekvkcq4r32jyan6wqh7v6wgtywey5qa26q0c67tg","hash":"werc8gmrzge196qvyk49jvxs4gktwgf4cjds6k54jpchpy2jq1ag","size":0,"owner":"alice","mimeType":"image/png"}''\<close>

definition sample_digests :: "(string \<times> string) list" where
  "sample_digests =
     [(''hello'',
        [CHR 0x2C, CHR 0xF2, CHR 0x4D, CHR 0xBA, CHR 0x5F, CHR 0xB0, CHR 0xA3, CHR 0x0E,
         CHR 0x26, CHR 0xE8, CHR 0x3B, CHR 0x2A, CHR 0xC5, CHR 0xB9, CHR 0xE2, CHR 0x9E,
         CHR 0x1B, CHR 0x16, CHR 0x1E, CHR 0x5C, CHR 0x1F, CHR 0xA7, CHR 0x42, CHR 0x5E,
         CHR 0x73, CHR 0x04, CHR 0x33, CHR 0x62, CHR 0x93, CHR 0x8B, CHR 0x98, CHR 0x24]),
      (hello_hash @ ''hello.txttext/plainalice'',
        [CHR 0xED, CHR 0xEC, CHR 0x01, CHR 0x2F, CHR 0xBA, CHR 0x81, CHR 0x8D, CHR 0x0E,
         CHR 0xF6, CHR 0xC0, CHR 0x0D, CHR 0xDC, CHR 0x28, CHR 0xEF, CHR 0xA4, CHR 0xB3,
         CHR 0x4E, CHR 0x7B, CHR 0x4E, CHR 0x34, CHR 0xC2, CHR 0x59, CHR 0x06, CHR 0x17,
         CHR 0x2C, CHR 0xB1, CHR 0x16, CHR 0xEB, CHR 0x33, CHR 0x75, CHR 0x28, CHR 0xE1]),
      (hello_hash @ ''hello.txttext/plainbob'',
        [CHR 0x80, CHR 0x77, CHR 0x71, CHR 0x53, CHR 0xE3, CHR 0xF1, CHR 0xCD, CHR 0x46,
         CHR 0xD5, CHR 0x5A, CHR 0x91, CHR 0x1A, CHR 0xFE, CHR 0x1D, CHR 0x33, CHR 0x67,
         CHR 0x71, CHR 0x7D, CHR 0x8D, CHR 0x9B, CHR 0xE8, CHR 0x67, CHR 0xFD, CHR 0xEC,
         CHR 0x8D, CHR 0xDE, CHR 0xB8, CHR 0xCB, CHR 0x7C, CHR 0x5D, CHR 0x36, CHR 0x87]),
      ([],
        [CHR 0xE3, CHR 0xB0, CHR 0xC4, CHR 0x42, CHR 0x98, CHR 0xFC, CHR 0x1C, CHR 0x14,
         CHR 0x9A, CHR 0xFB, CHR 0xF4, CHR 0xC8, CHR 0x99, CHR 0x6F, CHR 0xB9, CHR 0x24,
         CHR 0x27, CHR 0xAE, CHR 0x41, CHR 0xE4, CHR 0x64, CHR 0x9B, CHR 0x93, CHR 0x4C,
         CHR 0xA4, CHR 0x95, CHR 0x99, CHR 0x1B, CHR 0x78, CHR 0x52, CHR 0xB8, CHR 0x55]),
      (empty_hash @ ''doc.pngimage/pngalice'',
        [CHR 0x9F, CHR 0xFE, CHR 0x9C, CHR 0x8C, CHR 0xFB, CHR 0x7B, CHR 0x1B, CHR 0x47,
         CHR 0x4F, CHR 0x73, CHR 0x65, CHR 0xC9, CHR 0x81, CHR 0x8A, CHR 0x5E, CHR 0x55,
         CHR 0x4D, CHR 0xCB, CHR 0xC4, CHR 0xFB, CHR 0x37, CHR 0x21, CHR 0xAF, CHR 0x71,
         CHR 0xDE, CHR 0x2D, CHR 0xD4, CHR 0x23, CHR 0x5C, CHR 0x0C, CHR 0x31, CHR 0xF5]),
      (jpeg_magic,
        [CHR 0x71, CHR 0x56, CHR 0x3A, CHR 0xD8, CHR 0x00, CHR 0x61, CHR 0x40, CHR 0x7E,
         CHR 0xDE, CHR 0x9C, CHR 0x6F, CHR 0x31, CHR 0x68, CHR 0x36, CHR 0x28, CHR 0x4B,
         CHR 0xD3, CHR 0x71, CHR 0x0A, CHR 0x52, CHR 0x0C, CHR 0x5A, CHR 0x79, CHR 0x2B,
         CHR 0x5E, CHR 0xDA, CHR 0x1C, CHR 0xB7, CHR 0x03, CHR 0x69, CHR 0x08, CHR 0x15]),
      (jpeg_hash @ ''doc.pngimage/pngalice'',
        [CHR 0x52, CHR 0x77, CHR 0xF7, CHR 0xA7, CHR 0x00, CHR 0x45, CHR 0xFC, CHR 0x30,
         CHR 0xF3, CHR 0x8E, CHR 0x0D, CHR 0xA9, CHR 0xCC, CHR 0xF0, CHR 0x8B, CHR 0xA2,
         CHR 0x87, CHR 0x59, CHR 0x2F, CHR 0x22, CHR 0x23, CHR 0x89, CHR 0xC6, CHR 0xF0,
         CHR 0xC1, CHR 0xE1, CHR 0x3C, CHR 0x69, CHR 0xCB, CHR 0xC2, CHR 0x72, CHR 0x55])]"

definition sample_sha256 :: "string \<Rightarrow> string" where
  "sample_sha256 p = (case map_of sample_digests p of None \<Rightarrow> [] | Some digest \<Rightarrow> digest)"

definition sample_Marshal :: "MediaMeta \<Rightarrow> string option" where
  "sample_Marshal m =
     (if m = alice_meta then Some alice_json
      else if m = bob_meta then Some bob_json
      else if m = empty_meta then Some empty_json
      else None)"

definition sample_Unmarshal :: "string \<Rightarrow> MediaMeta option" where
  "sample_Unmarshal b =
     (if b = alice_json then Some alice_meta
      else if b = bob_json then Some bob_meta
      else if b = empty_json then Some empty_meta
      else None)"

definition sample_lib :: stdlib where
  "sample_lib =
     \<lparr>uc = sample_unicode, sha256 = sample_sha256,
      json_Marshal = sample_Marshal, json_Unmarshal = sample_Unmarshal,
      filepath_Join = (\<lambda>elems. bytes_Join elems (CHR ''/''))\<rparr>"

text \<open>What the upload handler passes to \<open>NewMedia\<close>: no id, no hash, no size yet.\<close>

definition upload_meta :: "string \<Rightarrow> string \<Rightarrow> string \<Rightarrow> MediaMeta" where
  "upload_meta filename mimeType owner =
     \<lparr>Filename = filename, ID = [], Hash = [], Size = 0, Owner = owner, MIMEType = mimeType\<rparr>"

definition hello_media :: "string \<Rightarrow> Media" where
  "hello_media owner =
     NewMedia sample_lib (Some ''hello'') (upload_meta ''hello.txt'' ''text/plain'' owner)"

definition doc_png :: "string option \<Rightarrow> Media" where
  "doc_png body = NewMedia sample_lib body (upload_meta ''doc.png'' ''image/png'' ''alice'')"

definition empty_store :: state where
  "empty_store = \<lparr>blobs = (\<lambda>r. Map.empty), fails = (\<lambda>r op. False), trace = []\<rparr>"

text \<open>The blobs after \<open>alice\<close> and then \<open>bob\<close> uploaded \<open>hello.txt\<close>.\<close>

definition shared_store :: state where
  "shared_store =
     \<lparr>blobs = (\<lambda>r. Map.empty)
        (DataRepo := [hello_hash \<mapsto> ''hello''],
         MetaRepo := [alice_id \<mapsto> alice_json, bob_id \<mapsto> bob_json],
         BackrefRepo := [hello_hash \<mapsto> alice_id @ [newline] @ bob_id]),
      fails = (\<lambda>r op. False), trace = []\<rparr>"

text \<open>
  The blobs after \<open>alice\<close> alone uploaded \<open>hello.txt\<close> and the data blob was then removed
  behind the back of the service.
\<close>

definition orphan_store :: state where
  "orphan_store =
     \<lparr>blobs = (\<lambda>r. Map.empty)
        (MetaRepo := [alice_id \<mapsto> alice_json],
         BackrefRepo := [hello_hash \<mapsto> alice_id]),
      fails = (\<lambda>r op. False), trace = []\<rparr>"

definition sample_cfg :: MediaConfig where
  "sample_cfg = \<lparr>MaxSize = 20971520\<rparr>"

definition sample_repo :: FileSystemRepository where
  "sample_repo = \<lparr>Basedir = ''var/storage/blob'', subdir = ''data'', ext = ''bin''\<rparr>"


section \<open>Properties of the encoding\<close>

definition lc_alphabet :: string where
  "lc_alphabet = ''0123456789abcdefghjkmnpqrstvwxyz''"

lemma index_below_32: "unat ((w::64 word) AND 0x1F) < 32"
proof -
  have "unat (w AND 0x1F) \<le> unat (0x1F :: 64 word)"
    by (rule word_and_le1 [THEN word_le_nat_alt [THEN iffD1]])
  then show ?thesis by simp
qed

lemma alphabet_nth: "i < 32 \<Longrightarrow> crockfordBase32Alphabet ! i \<in> set crockfordBase32Alphabet"
  by (rule nth_mem) (simp add: crockfordBase32Alphabet_def)

lemma enc_emit_set:
  "set (snd (enc_emit accum bits result)) \<subseteq> set result \<union> set crockfordBase32Alphabet"
proof (induction accum bits result rule: enc_emit.induct)
  case (1 accum bits result)
  show ?case
  proof (cases "bits \<ge> 5")
    case True
    with 1 show ?thesis
      using alphabet_nth [OF index_below_32]
      by (subst enc_emit.simps) auto
  next
    case False
    then show ?thesis by (subst enc_emit.simps) simp
  qed
qed

lemma enc_loop_set:
  "set (snd (snd (enc_loop input accum bits result))) \<subseteq> set result \<union> set crockfordBase32Alphabet"
proof (induction input arbitrary: accum bits result)
  case Nil
  then show ?case by simp
next
  case (Cons b input)
  define accum' where "accum' = push_bit 8 accum OR word_of_nat (byte b)"
  obtain bits' result' where e: "enc_emit accum' (bits + 8) result = (bits', result')"
    by (cases "enc_emit accum' (bits + 8) result")
  have r: "set result' \<subseteq> set result \<union> set crockfordBase32Alphabet"
    using enc_emit_set [of accum' "bits + 8" result] e by simp
  have "set (snd (snd (enc_loop input accum' bits' result')))
          \<subseteq> set result' \<union> set crockfordBase32Alphabet"
    by (rule Cons.IH)
  with r show ?case
    by (auto simp add: e accum'_def [symmetric] Let_def)
qed

lemma alphabet_chars:
  "list_all (\<lambda>c. byte c < 128 \<and> lower_byte c \<in> set lc_alphabet) crockfordBase32Alphabet"
  by code_simp

lemma alphabet_ascii: "set s \<subseteq> set crockfordBase32Alphabet \<Longrightarrow> isASCII s"
  using alphabet_chars by (auto simp add: isASCII_def list_all_iff)

lemma lower_alphabet: "c \<in> set crockfordBase32Alphabet \<Longrightarrow> lower_byte c \<in> set lc_alphabet"
  using alphabet_chars by (simp add: list_all_iff)

lemma Encode_set: "set (EncodeCrockfordB32LC U input) \<subseteq> set lc_alphabet"
proof -
  obtain accum bits result where l: "enc_loop input 0 0 [] = (accum, bits, result)"
    by (cases "enc_loop input 0 0 []")
  have r: "set result \<subseteq> set crockfordBase32Alphabet"
    using enc_loop_set [of input 0 0 "[]"] l by simp
  define result' where "result' =
    (if bits > 0
     then result @ [crockfordBase32Alphabet ! unat (push_bit (5 - bits) accum AND 0x1F)]
     else result)"
  have r': "set result' \<subseteq> set crockfordBase32Alphabet"
    using r alphabet_nth [OF index_below_32] by (auto simp add: result'_def)
  have "EncodeCrockfordB32LC U input = map lower_byte result'"
    using alphabet_ascii [OF r']
    by (simp add: EncodeCrockfordB32LC_def l result'_def [symmetric] ToLower_def)
  with r' show ?thesis
    using lower_alphabet by auto
qed

lemma lc_chars:
  "list_all (\<lambda>c. byte c < 128 \<and> c \<noteq> CHR '' '' \<and> c \<noteq> CHR 0x0A \<and> byte (upper_byte c) < 128
      \<and> normalize_rune [upper_byte c] = [upper_byte c] \<and> lower_byte (upper_byte c) = c)
     lc_alphabet"
  by code_simp

lemma lc_ascii: "set s \<subseteq> set lc_alphabet \<Longrightarrow> isASCII s"
  using lc_chars by (auto simp add: isASCII_def list_all_iff)

lemma lc_no_space: "set s \<subseteq> set lc_alphabet \<Longrightarrow> RemoveAll (CHR '' '') s = s"
  unfolding RemoveAll_def using lc_chars by (intro filter_True) (auto simp add: list_all_iff)

lemma upper_lc_ascii: "set s \<subseteq> set lc_alphabet \<Longrightarrow> isASCII (map upper_byte s)"
  using lc_chars by (auto simp add: isASCII_def list_all_iff)

lemma normalize_upper:
  "c \<in> set lc_alphabet \<Longrightarrow> normalize_rune [upper_byte c] = [upper_byte c]"
  using lc_chars by (simp add: list_all_iff)

lemma lower_upper: "c \<in> set lc_alphabet \<Longrightarrow> lower_byte (upper_byte c) = c"
  using lc_chars by (simp add: list_all_iff)

lemma Normalize_lc:
  assumes "set s \<subseteq> set lc_alphabet"
  shows "NormalizeCrockfordB32LC U s = s"
proof -
  have 1: "ToUpper U s = map upper_byte s"
    using lc_ascii [OF assms] by (simp add: ToUpper_def)
  have 2: "runes U (map upper_byte s) = map (\<lambda>c. [c]) (map upper_byte s)"
    using upper_lc_ascii [OF assms] by (simp add: runes_def)
  have 3: "concat (map normalize_rune (map (\<lambda>c. [c]) (map upper_byte s))) = map upper_byte s"
    using assms normalize_upper by (induction s) auto
  have 4: "ToLower U (map upper_byte s) = map lower_byte (map upper_byte s)"
    using upper_lc_ascii [OF assms] by (simp add: ToLower_def)
  have 5: "map lower_byte (map upper_byte s) = s"
    using assms lower_upper by (induction s) auto
  show ?thesis
    by (simp only: NormalizeCrockfordB32LC_def Let_def lc_no_space [OF assms] 1 2 3 4 5)
qed

text \<open>
  C9. Normalizing the lowercase Crockford-Base32 encoding of any byte sequence returns it
  unchanged: the encoder only emits characters of the lowercase alphabet, which has no
  space and no letter that normalization rewrites. This holds whatever the standard
  library does on non-ASCII strings.
\<close>

theorem normalize_encode_identity:
  "NormalizeCrockfordB32LC U (EncodeCrockfordB32LC U b) = EncodeCrockfordB32LC U b"
  by (rule Normalize_lc) (rule Encode_set)

theorem normalize_encode_identity_witness:
  "NormalizeCrockfordB32LC sample_unicode (EncodeCrockfordB32LC sample_unicode ''hello'')
     = ''d1jprv3f''"
proof -
  have "EncodeCrockfordB32LC sample_unicode ''hello'' = ''d1jprv3f''"
    by code_simp
  with normalize_encode_identity [of sample_unicode "''hello''"] show ?thesis
    by simp
qed


section \<open>Properties of the derived metadata\<close>

lemma sample_lib_fields [simp]:
  "uc sample_lib = sample_unicode"
  "sha256 sample_lib = sample_sha256"
  "json_Marshal sample_lib = sample_Marshal"
  "json_Unmarshal sample_lib = sample_Unmarshal"
  by (simp_all add: sample_lib_def)

lemma hello_media_alice: "hello_media ''alice'' = \<lparr>data = Some ''hello'', meta = alice_meta\<rparr>"
  by code_simp

lemma hello_hash_eval:
  "EncodeCrockfordB32LC sample_unicode (sample_sha256 ''hello'') = hello_hash"
  by code_simp

lemma alice_id_eval:
  "EncodeCrockfordB32LC sample_unicode
     (sample_sha256 (hello_hash @ ''hello.txttext/plainalice'')) = alice_id"
  by code_simp

text \<open>
  C3. \<open>NewMedia\<close> sets the size to the length of the body, the hash to the encoding of
  the digest of the body, and the id to the encoding of the digest of hash, filename, MIME
  type and owner in this order. None of the three depends on the id, hash or size of the
  meta passed in: the hash is the same for any two metas, and the id is the same for any
  two metas with the same filename, MIME type and owner.
\<close>

theorem NewMedia_derives_meta:
  "Size (meta (NewMedia L body m)) = int (length (bytes_of body))
   \<and> Hash (meta (NewMedia L body m)) = EncodeCrockfordB32LC (uc L) (sha256 L (bytes_of body))
   \<and> ID (meta (NewMedia L body m)) =
       EncodeCrockfordB32LC (uc L)
         (sha256 L (Hash (meta (NewMedia L body m)) @ Filename m @ MIMEType m @ Owner m))
   \<and> Hash (meta (NewMedia L body m)) = Hash (meta (NewMedia L body m'))
   \<and> ID (meta (NewMedia L body m)) =
       ID (meta (NewMedia L body (m'\<lparr>Filename := Filename m, MIMEType := MIMEType m, Owner := Owner m\<rparr>)))"
  by (simp add: NewMedia_def update_def Let_def hasher_New_def hasher_Write_def
      hasher_Reset_def hasher_Sum_def)

theorem NewMedia_derives_meta_witness:
  "Size (meta (NewMedia sample_lib (Some ''hello'') (upload_meta ''hello.txt'' ''text/plain'' ''alice''))) = 5
   \<and> Hash (meta (NewMedia sample_lib (Some ''hello'') (upload_meta ''hello.txt'' ''text/plain'' ''alice''))) = hello_hash
   \<and> ID (meta (NewMedia sample_lib (Some ''hello'') (upload_meta ''hello.txt'' ''text/plain'' ''alice''))) = alice_id
   \<and> Hash (meta (NewMedia sample_lib (Some ''hello'') bob_meta)) = hello_hash"
proof -
  note t = NewMedia_derives_meta [of sample_lib "Some ''hello''" "upload_meta ''hello.txt'' ''text/plain'' ''alice''" bob_meta]
  note t_size = t [THEN conjunct1]
  note t_hash = t [THEN conjunct2, THEN conjunct1]
  note t_id = t [THEN conjunct2, THEN conjunct2, THEN conjunct1]
  note t_same = t [THEN conjunct2, THEN conjunct2, THEN conjunct2, THEN conjunct1]
  have s: "Size (meta (NewMedia sample_lib (Some ''hello'') (upload_meta ''hello.txt'' ''text/plain'' ''alice''))) = 5"
    unfolding t_size by (simp add: bytes_of_def)
  have h: "Hash (meta (NewMedia sample_lib (Some ''hello'') (upload_meta ''hello.txt'' ''text/plain'' ''alice''))) = hello_hash"
    unfolding t_hash by (simp add: bytes_of_def hello_hash_eval)
  have i: "ID (meta (NewMedia sample_lib (Some ''hello'') (upload_meta ''hello.txt'' ''text/plain'' ''alice''))) = alice_id"
    unfolding t_id h by (simp add: upload_meta_def alice_id_eval)
  have h': "Hash (meta (NewMedia sample_lib (Some ''hello'') bob_meta)) = hello_hash"
    using t_same h by simp
  from s h i h' show ?thesis by simp
qed


section \<open>Properties of the media service\<close>

lemma no_faultsD: "no_faults s \<Longrightarrow> \<not> fails s r op"
  by (simp add: no_faults_def)

lemma no_faults_samples [simp]:
  "no_faults empty_store" "no_faults shared_store" "no_faults orphan_store"
  by (simp_all add: no_faults_def empty_store_def shared_store_def orphan_store_def)

lemma bytes_Split_not_Nil: "bytes_Split s sep \<noteq> []"
  by (induction s) (auto split: list.splits)

lemma bytes_Split_no_sep: "p \<in> set (bytes_Split s sep) \<Longrightarrow> sep \<notin> set p"
  by (induction s arbitrary: p) (auto split: list.splits if_splits)

lemma bytes_Split_plain: "sep \<notin> set p \<Longrightarrow> bytes_Split p sep = [p]"
  by (induction p) auto

lemma bytes_Split_append:
  "sep \<notin> set p \<Longrightarrow> bytes_Split (p @ sep # rest) sep = p # bytes_Split rest sep"
  by (induction p) auto

lemma bytes_Split_Join:
  "parts \<noteq> [] \<Longrightarrow> (\<forall>p \<in> set parts. sep \<notin> set p)
     \<Longrightarrow> bytes_Split (bytes_Join parts sep) sep = parts"
proof (induction parts sep rule: bytes_Join.induct)
  case (1 sep)
  then show ?case by simp
next
  case (2 part sep)
  then show ?case by (simp add: bytes_Split_plain)
next
  case (3 part v va sep)
  then show ?case by (simp add: bytes_Split_append)
qed

lemma fetchBackrefs_ok:
  "\<not> fails s BackrefRepo OpFetch \<Longrightarrow> fetchBackrefs h s = Inr (Backref s h)"
  by (simp add: fetchBackrefs_def repo_Exists_def repo_Fetch_def Backref_def split: option.splits)

lemma storeBackrefs_ok:
  "\<not> fails s BackrefRepo OpStore \<Longrightarrow>
     storeBackrefs h refs s =
       (Inr (), s\<lparr>blobs := (blobs s)(BackrefRepo := (blobs s BackrefRepo)(h \<mapsto> bytes_Join refs newline)),
                  trace := trace s @ [EvStore BackrefRepo h]\<rparr>)"
  by (simp add: storeBackrefs_def repo_Store_def NewBlob_def)

lemma addBackrefs_ok:
  "\<not> fails s BackrefRepo OpFetch \<Longrightarrow> \<not> fails s BackrefRepo OpStore \<Longrightarrow>
     addBackrefs h ids s =
       (Inr (), s\<lparr>blobs := (blobs s)(BackrefRepo :=
                      (blobs s BackrefRepo)(h \<mapsto> bytes_Join (Backref s h @ ids) newline)),
                  trace := trace s @ [EvStore BackrefRepo h]\<rparr>)"
  by (simp add: addBackrefs_def fetchBackrefs_ok storeBackrefs_ok)

lemma Store_ok:
  assumes "no_faults s" "Media_Size m \<le> MaxSize cfg" "json_Marshal L (meta m) = Some metaBody"
  shows "Store L cfg m s = (Inr (), stored m metaBody s)"
  using assms no_faultsD [OF assms(1)]
  by (simp add: Store_def MediaMeta_AsBlob_def repo_Lock_def repo_Store_def repo_Exists_def
      addBackrefs_ok Let_def NewBlob_def Media_AsBlob_def stored_def Backref_def)

lemma no_faults_stored: "no_faults s \<Longrightarrow> no_faults (stored m metaBody s)"
  by (simp add: no_faults_def stored_def Let_def)

lemma stored_present:
  "blobs s DataRepo (Hash (meta m)) \<noteq> None \<Longrightarrow> blobs s MetaRepo (ID (meta m)) \<noteq> None \<Longrightarrow>
     stored m metaBody s =
       s\<lparr>trace := trace s @
          [EvLock MetaRepo (ID (meta m)) True, EvLock DataRepo (Hash (meta m)) True]\<rparr>"
  by (auto simp add: stored_def Let_def)

lemma stored_has_data: "blobs (stored m metaBody s) DataRepo (Hash (meta m)) \<noteq> None"
  by (simp add: stored_def Let_def)

lemma stored_has_meta: "blobs (stored m metaBody s) MetaRepo (ID (meta m)) \<noteq> None"
  by (simp add: stored_def Let_def)

lemma stored_twice:
  "stored m metaBody (stored m metaBody s) =
     (stored m metaBody s)\<lparr>trace := trace (stored m metaBody s) @
        [EvLock MetaRepo (ID (meta m)) True, EvLock DataRepo (Hash (meta m)) True]\<rparr>"
  by (rule stored_present) (rule stored_has_data, rule stored_has_meta)

lemma stored_data:
  "blobs (stored m metaBody s) DataRepo (Hash (meta m)) =
     (case blobs s DataRepo (Hash (meta m)) of
        None \<Rightarrow> Some (bytes_of (data m))
      | Some old \<Rightarrow> Some old)"
  by (auto simp add: stored_def Let_def)

lemma Backref_no_newline: "p \<in> set (Backref s h) \<Longrightarrow> newline \<notin> set p"
  by (auto simp add: Backref_def bytes_Split_no_sep split: option.splits)

lemma NewMedia_ID_no_newline: "newline \<notin> set (ID (meta (NewMedia L body upload)))"
proof -
  have "set (ID (meta (NewMedia L body upload))) \<subseteq> set lc_alphabet"
    by (simp add: NewMedia_def update_def Let_def Encode_set)
  moreover have "newline \<notin> set lc_alphabet"
    using lc_chars by (auto simp add: list_all_iff newline_def)
  ultimately show ?thesis by blast
qed

lemma stored_Backref:
  assumes "newline \<notin> set (ID (meta m))"
  shows "Backref (stored m metaBody s) (Hash (meta m)) =
     (if blobs s MetaRepo (ID (meta m)) = None
      then Backref s (Hash (meta m)) @ [ID (meta m)]
      else Backref s (Hash (meta m)))"
proof (cases "blobs s MetaRepo (ID (meta m)) = None")
  case True
  have "bytes_Split (bytes_Join (Backref s (Hash (meta m)) @ [ID (meta m)]) newline) newline
      = Backref s (Hash (meta m)) @ [ID (meta m)]"
    using assms by (intro bytes_Split_Join) (auto simp add: Backref_no_newline)
  with True show ?thesis
    by (simp add: stored_def Let_def Backref_def)
next
  case False
  then show ?thesis
    by (auto simp add: stored_def Let_def Backref_def)
qed

lemma Store_too_large:
  "Media_Size m > MaxSize cfg \<Longrightarrow> Store L cfg m s = (Inl (Wrap ''exceeds'' ErrMediaTooLarge), s)"
  by (simp add: Store_def)

lemma Store_not_too_large:
  "\<not> Media_Size m > MaxSize cfg \<Longrightarrow> \<not> failed_with (fst (Store L cfg m s)) ErrMediaTooLarge"
  by (auto simp add: Store_def failed_with_def MediaMeta_AsBlob_def repo_Lock_def repo_Store_def
      addBackrefs_def storeBackrefs_def fetchBackrefs_def repo_Fetch_def Let_def
      split: sum.splits option.splits prod.splits if_splits)

lemma Store_succeeds:
  assumes "no_faults s" "Media_Size m \<le> MaxSize cfg" "json_Marshal L (meta m) = Some metaBody"
  shows "fst (Store L cfg m s) = Inr ()"
    and "blobs (snd (Store L cfg m s)) DataRepo (Hash (meta m)) \<noteq> None"
    and "blobs (snd (Store L cfg m s)) MetaRepo (ID (meta m)) \<noteq> None"
  by (simp_all add: Store_ok [OF assms] stored_def Let_def)

lemma Check_too_large:
  "failed_with (CheckUploadConstraints L cfg filename size' img) ErrImageTooLarge
     \<longleftrightarrow> size' > MaxSize cfg"
  by (auto simp add: CheckUploadConstraints_def failed_with_def Let_def
      split: option.splits)

text \<open>
  C7. \<open>Store\<close> fails with \<open>ErrMediaTooLarge\<close> exactly when the size of the body exceeds
  \<open>MaxSize\<close>; it then returns the state as it was, with no lock taken and nothing
  written. A body of at most \<open>MaxSize\<close> bytes passes the check, and when no system call
  fails and the meta serializes, the store succeeds and holds the data and the meta blob.
  \<open>CheckUploadConstraints\<close> fails with \<open>ErrImageTooLarge\<close> exactly when the size
  exceeds \<open>MaxSize\<close>.
\<close>

theorem size_limit_is_strict:
  "(failed_with (fst (Store L cfg m s)) ErrMediaTooLarge \<longleftrightarrow> Media_Size m > MaxSize cfg)
   \<and> (Media_Size m > MaxSize cfg \<longrightarrow> snd (Store L cfg m s) = s)
   \<and> (Media_Size m \<le> MaxSize cfg \<and> no_faults s \<and> json_Marshal L (meta m) \<noteq> None \<longrightarrow>
        fst (Store L cfg m s) = Inr ()
        \<and> blobs (snd (Store L cfg m s)) DataRepo (Hash (meta m)) \<noteq> None
        \<and> blobs (snd (Store L cfg m s)) MetaRepo (ID (meta m)) \<noteq> None)
   \<and> (failed_with (CheckUploadConstraints L cfg filename size' img) ErrImageTooLarge
        \<longleftrightarrow> size' > MaxSize cfg)"
proof -
  have 1: "failed_with (fst (Store L cfg m s)) ErrMediaTooLarge \<longleftrightarrow> Media_Size m > MaxSize cfg"
    using Store_too_large [where s=s and m=m and cfg=cfg and L=L]
      Store_not_too_large [where s=s and m=m and cfg=cfg and L=L]
    by (auto simp add: failed_with_def)
  have 2: "Media_Size m > MaxSize cfg \<longrightarrow> snd (Store L cfg m s) = s"
    by (simp add: Store_too_large)
  have 3: "Media_Size m \<le> MaxSize cfg \<and> no_faults s \<and> json_Marshal L (meta m) \<noteq> None \<longrightarrow>
        fst (Store L cfg m s) = Inr ()
        \<and> blobs (snd (Store L cfg m s)) DataRepo (Hash (meta m)) \<noteq> None
        \<and> blobs (snd (Store L cfg m s)) MetaRepo (ID (meta m)) \<noteq> None"
    using Store_succeeds [where s=s and m=m and cfg=cfg and L=L] by blast
  from 1 2 3 Check_too_large show ?thesis by blast
qed

theorem size_limit_is_strict_witness:
  "fst (Store sample_lib \<lparr>MaxSize = 5\<rparr> (hello_media ''alice'') empty_store) = Inr ()
   \<and> Store sample_lib \<lparr>MaxSize = 4\<rparr> (hello_media ''alice'') empty_store
       = (Inl (Wrap ''exceeds'' ErrMediaTooLarge), empty_store)"
proof -
  have size: "Media_Size (hello_media ''alice'') = 5"
    by (simp add: hello_media_alice Media_Size_def bytes_of_def)
  have mar: "json_Marshal sample_lib (meta (hello_media ''alice'')) \<noteq> None"
    by (simp add: hello_media_alice sample_Marshal_def)
  note t5 = size_limit_is_strict [of sample_lib "\<lparr>MaxSize = 5\<rparr>" "hello_media ''alice''" empty_store]
  note t4 = size_limit_is_strict [of sample_lib "\<lparr>MaxSize = 4\<rparr>" "hello_media ''alice''" empty_store]
  have a: "fst (Store sample_lib \<lparr>MaxSize = 5\<rparr> (hello_media ''alice'') empty_store) = Inr ()"
    using t5 size mar by simp
  have "failed_with (fst (Store sample_lib \<lparr>MaxSize = 4\<rparr> (hello_media ''alice'') empty_store)) ErrMediaTooLarge"
    and "snd (Store sample_lib \<lparr>MaxSize = 4\<rparr> (hello_media ''alice'') empty_store) = empty_store"
    using t4 size by simp_all
  moreover have "fst (Store sample_lib \<lparr>MaxSize = 4\<rparr> (hello_media ''alice'') empty_store)
      = Inl (Wrap ''exceeds'' ErrMediaTooLarge)"
    using size by (simp add: Store_def)
  ultimately have b: "Store sample_lib \<lparr>MaxSize = 4\<rparr> (hello_media ''alice'') empty_store
       = (Inl (Wrap ''exceeds'' ErrMediaTooLarge), empty_store)"
    by (simp add: prod_eq_iff)
  from a b show ?thesis by simp
qed

text \<open>
  C2. For a media built by \<open>NewMedia\<close>, in a store where no system call fails and where
  the backref list of its hash holds its id once if its meta blob exists and not at all
  otherwise: two calls of \<open>Store\<close> in sequence both succeed; the second changes no blob
  and only takes the two locks (no data, meta or backref write); the data blob is the old
  one when there was one; and the backref list then holds the id exactly once.
\<close>

theorem Store_twice_is_Store_once:
  assumes "no_faults s" and "Media_Size m \<le> MaxSize cfg"
    and "json_Marshal L (meta m) = Some metaBody"
    and "m = NewMedia L body upload"
    and "count_list (Backref s (Media_Hash m)) (Media_ID m)
           = (if repo_Exists MetaRepo (Media_ID m) s then 1 else 0)"
  defines "s1 \<equiv> snd (Store L cfg m s)"
    and "s2 \<equiv> snd (Store L cfg m (snd (Store L cfg m s)))"
  shows "fst (Store L cfg m s) = Inr ()
    \<and> fst (Store L cfg m s1) = Inr ()
    \<and> blobs s2 = blobs s1
    \<and> trace s2 = trace s1 @ [EvLock MetaRepo (Media_ID m) True, EvLock DataRepo (Media_Hash m) True]
    \<and> blobs s1 DataRepo (Media_Hash m) =
        (case blobs s DataRepo (Media_Hash m) of
           None \<Rightarrow> Some (bytes_of (data m))
         | Some old \<Rightarrow> Some old)
    \<and> fetchBackrefs (Media_Hash m) s2 = Inr (Backref s2 (Media_Hash m))
    \<and> count_list (Backref s2 (Media_Hash m)) (Media_ID m) = 1"
proof -
  have 1: "Store L cfg m s = (Inr (), stored m metaBody s)"
    using assms(1-3) by (rule Store_ok)
  then have s1: "s1 = stored m metaBody s"
    by (simp add: s1_def)
  have nf1: "no_faults s1"
    unfolding s1 using assms(1) by (rule no_faults_stored)
  have 2: "Store L cfg m s1 = (Inr (), stored m metaBody s1)"
    using nf1 assms(2,3) by (rule Store_ok)
  then have s2: "s2 = s1\<lparr>trace := trace s1 @
        [EvLock MetaRepo (ID (meta m)) True, EvLock DataRepo (Hash (meta m)) True]\<rparr>"
    by (simp add: s2_def s1_def [symmetric]) (simp add: s1 stored_twice)
  have nl: "newline \<notin> set (ID (meta m))"
    unfolding assms(4) by (rule NewMedia_ID_no_newline)
  have b2: "Backref s2 (Hash (meta m)) = Backref s1 (Hash (meta m))"
    by (simp add: s2 Backref_def)
  have c: "count_list (Backref s1 (Hash (meta m))) (ID (meta m)) = 1"
    using assms(5)
    by (simp add: s1 stored_Backref [OF nl] repo_Exists_def Media_Hash_def Media_ID_def)
  have f: "fetchBackrefs (Hash (meta m)) s2 = Inr (Backref s2 (Hash (meta m)))"
    using nf1 by (intro fetchBackrefs_ok) (simp add: s2 no_faults_def)
  show ?thesis
    using 1 2 c f
    by (simp add: s1_def [symmetric] s2_def [symmetric] Media_Hash_def Media_ID_def b2)
      (simp add: s2 s1 stored_data)
qed

text \<open>
  C1. For a stored media (meta blob, data blob and backref blob present) and no failing
  system call, \<open>Delete\<close> by the owner returns without error, with the hash of the meta as
  data id and \<open>pruned\<close> true exactly when no other id remains in the backref list. The
  meta blob is deleted in both cases. When nothing remains, the data blob and the backref
  blob are deleted; otherwise the data blob stays and the backref blob is rewritten with
  the remaining ids, which is then the list read back. The id is not among the remaining.
\<close>

theorem Delete_by_owner:
  assumes nf: "no_faults s"
    and m: "blobs s MetaRepo (ID M) = Some metaBody" "json_Unmarshal L metaBody = Some M"
    and d: "blobs s DataRepo (Hash M) = Some body"
    and b: "blobs s BackrefRepo (Hash M) = Some backrefBody"
  defines "remaining \<equiv> filter (\<lambda>v. v \<noteq> ID M) (bytes_Split backrefBody newline)"
    and "s' \<equiv> snd (Delete L (Some (Owner M)) (ID M) s)"
  shows "fst (Delete L (Some (Owner M)) (ID M) s) = (remaining = [], Hash M, None)
    \<and> ID M \<notin> set remaining
    \<and> blobs s' MetaRepo = (blobs s MetaRepo)(ID M := None)
    \<and> (remaining = [] \<longrightarrow>
          blobs s' DataRepo = (blobs s DataRepo)(Hash M := None)
        \<and> blobs s' BackrefRepo = (blobs s BackrefRepo)(Hash M := None))
    \<and> (remaining \<noteq> [] \<longrightarrow>
          blobs s' DataRepo = blobs s DataRepo
        \<and> blobs s' BackrefRepo = (blobs s BackrefRepo)(Hash M \<mapsto> bytes_Join remaining newline)
        \<and> fetchBackrefs (Hash M) s' = Inr remaining)
    \<and> blobs s' CacheRepo = blobs s CacheRepo"
proof -
  note nf' = no_faultsD [OF nf]
  have sj: "remaining \<noteq> [] \<Longrightarrow> bytes_Split (bytes_Join remaining newline) newline = remaining"
    by (rule bytes_Split_Join) (auto simp add: remaining_def bytes_Split_no_sep)
  show ?thesis
  proof (cases "remaining = []")
    case True
    then have f: "filter (\<lambda>v. v \<noteq> ID M) (bytes_Split backrefBody newline) = []"
      by (simp add: remaining_def)
    show ?thesis
      unfolding s'_def using True m d b nf' f
      by (simp add: Delete_def fetchMeta_def repo_Lock_def repo_Fetch_def repo_Delete_def
          repo_Exists_def NewMediaMetaFromBlob_def UsernameFromContext_def pruneMedia_def
          fetchBackrefs_def Let_def)
  next
    case False
    then have f: "filter (\<lambda>v. v \<noteq> ID M) (bytes_Split backrefBody newline) \<noteq> []"
      by (simp add: remaining_def)
    have i: "ID M \<notin> set remaining"
      by (simp add: remaining_def)
    show ?thesis
      unfolding s'_def using False m d b nf' f i sj
      by (simp add: Delete_def fetchMeta_def repo_Lock_def repo_Fetch_def repo_Delete_def
          repo_Exists_def NewMediaMetaFromBlob_def UsernameFromContext_def pruneMedia_def
          fetchBackrefs_def storeBackrefs_def repo_Store_def NewBlob_def Let_def
          remaining_def [symmetric])
  qed
qed

text \<open>
  C10. For a stored media, whatever its owner field (the empty string included), \<open>Fetch\<close>
  and \<open>Delete\<close> under a context without a username fail with \<open>ErrUnauthorized\<close>, after
  taking the shared lock on the meta blob and before anything else.
\<close>

theorem no_username_is_unauthorized:
  assumes "\<not> fails s MetaRepo OpLock" and "\<not> fails s MetaRepo OpFetch"
    and "blobs s MetaRepo mediaID = Some metaBody"
    and "json_Unmarshal L metaBody = Some M"
  shows "Fetch L None mediaID s =
           (Inl (Wrap ''is not owner'' ErrUnauthorized),
            s\<lparr>trace := trace s @ [EvLock MetaRepo mediaID False]\<rparr>)
    \<and> Delete L None mediaID s =
           ((False, [], Some (Wrap ''is not owner'' ErrUnauthorized)),
            s\<lparr>trace := trace s @ [EvLock MetaRepo mediaID False]\<rparr>)
    \<and> Is (Wrap ''is not owner'' ErrUnauthorized) ErrUnauthorized"
  using assms
  by (simp add: Fetch_def Delete_def fetchMeta_def repo_Lock_def repo_Fetch_def
      NewMediaMetaFromBlob_def UsernameFromContext_def)


end
